theory Spec2Isabelle
  imports Main "HOL-Library.AList" "HOL-Library.Sublist"
begin

section \<open>hw-6: vehicles, fuel and cargo\<close>

text \<open>
  The numbers of the exercise (weight, fuel, fuel consumption, distance, cargo) are Python
  integers, which are unbounded: they are modelled as \<^typ>\<open>int\<close>. Rounding of
  Python floats is outside this model.

  A method that mutates \<open>self\<close> and may raise is a function from the object to a pair:
  the outcome (\<open>Inl\<close> the exception raised, \<open>Inr\<close> the value returned) and the object
  as the call leaves it. The object is returned on both paths, so what a raising call has
  done to the fields before it raised is part of the model.
\<close>

subsection \<open>exceptions.py\<close>

text \<open>
  The three exception classes. Each is raised with a message; the message of
  \<open>NotEnoughFuel\<close> and of \<open>CargoOverload\<close> is formatted from numbers, which the
  constructors below carry in the order the message shows them:
  \<open>Need {fuel_needed} fuel, but only have {self.fuel}\<close> and
  \<open>Cannot load {amount} cargo. Current: {self.cargo}, Max: {self.max_cargo}\<close>.
\<close>

datatype vehicle_error =
    LowFuelError
  | NotEnoughFuel int int
  | CargoOverload int int int

subsection \<open>base.py: class Vehicle\<close>

record vehicle =
  weight :: int
  started :: bool
  fuel :: int
  fuel_consumption :: int

text \<open>
  \<open>Vehicle.__init__(self, weight=0, fuel=0, fuel_consumption=0)\<close> assigns the three
  arguments; \<open>started\<close> is not assigned and reads the class attribute \<open>False\<close>.
\<close>

definition Vehicle_init :: "int \<Rightarrow> int \<Rightarrow> int \<Rightarrow> vehicle" where
  "Vehicle_init w f c =
     \<lparr>weight = w, started = False, fuel = f, fuel_consumption = c\<rparr>"

text \<open>
  The methods are defined on \<^typ>\<open>'a vehicle_scheme\<close>, the record and all its
  extensions, as a subclass inherits them.
\<close>

definition start :: "'a vehicle_scheme \<Rightarrow> (vehicle_error + unit) \<times> 'a vehicle_scheme" where
  "start v =
     (if \<not> started v then
        (if fuel v > 0 then (Inr (), v\<lparr>started := True\<rparr>)
         else (Inl LowFuelError, v))
      else (Inr (), v))"

definition move :: "int \<Rightarrow> 'a vehicle_scheme \<Rightarrow> (vehicle_error + unit) \<times> 'a vehicle_scheme" where
  "move distance v =
     (let fuel_needed = distance * fuel_consumption v in
      if fuel v \<ge> fuel_needed then (Inr (), v\<lparr>fuel := fuel v - fuel_needed\<rparr>)
      else (Inl (NotEnoughFuel fuel_needed (fuel v)), v))"

subsection \<open>plane.py: class Plane(Vehicle)\<close>

record plane = vehicle +
  cargo :: int
  max_cargo :: int

text \<open>
  \<open>Plane.__init__(self, weight=0, fuel=0, fuel_consumption=0, max_cargo=0)\<close> calls the
  constructor of \<open>Vehicle\<close> and assigns \<open>max_cargo\<close>; \<open>cargo\<close> reads the class
  attribute \<open>0\<close>.
\<close>

definition Plane_init :: "int \<Rightarrow> int \<Rightarrow> int \<Rightarrow> int \<Rightarrow> plane" where
  "Plane_init w f c m =
     \<lparr>weight = w, started = False, fuel = f, fuel_consumption = c,
      cargo = 0, max_cargo = m\<rparr>"

definition load_cargo :: "int \<Rightarrow> 'a plane_scheme \<Rightarrow> (vehicle_error + unit) \<times> 'a plane_scheme" where
  "load_cargo amount p =
     (if cargo p + amount \<le> max_cargo p then (Inr (), p\<lparr>cargo := cargo p + amount\<rparr>)
      else (Inl (CargoOverload amount (cargo p) (max_cargo p)), p))"

definition remove_all_cargo :: "'a plane_scheme \<Rightarrow> int \<times> 'a plane_scheme" where
  "remove_all_cargo p =
     (let previous_cargo = cargo p in (previous_cargo, p\<lparr>cargo := 0\<rparr>))"

subsection \<open>Sequences of calls\<close>

text \<open>
  A caller makes one call after another on the same object and goes on after an exception
  (it catches it): the next call runs on the object as the raising call left it. A caller
  that stops at the first exception sees a prefix of such a sequence.
\<close>

datatype vehicle_call = Start | Move int

fun vehicle_step :: "vehicle_call \<Rightarrow> 'a vehicle_scheme \<Rightarrow> 'a vehicle_scheme" where
  "vehicle_step Start v = snd (start v)"
| "vehicle_step (Move d) v = snd (move d v)"

fun vehicle_calls :: "vehicle_call list \<Rightarrow> 'a vehicle_scheme \<Rightarrow> 'a vehicle_scheme" where
  "vehicle_calls [] v = v"
| "vehicle_calls (c # cs) v = vehicle_calls cs (vehicle_step c v)"

fun nonneg_distance :: "vehicle_call \<Rightarrow> bool" where
  "nonneg_distance Start = True"
| "nonneg_distance (Move d) = (0 \<le> d)"

datatype plane_call = Load_cargo int | Remove_all_cargo

fun plane_step :: "plane_call \<Rightarrow> 'a plane_scheme \<Rightarrow> 'a plane_scheme" where
  "plane_step (Load_cargo a) p = snd (load_cargo a p)"
| "plane_step Remove_all_cargo p = snd (remove_all_cargo p)"

fun plane_calls :: "plane_call list \<Rightarrow> 'a plane_scheme \<Rightarrow> 'a plane_scheme" where
  "plane_calls [] p = p"
| "plane_calls (c # cs) p = plane_calls cs (plane_step c p)"

section \<open>hw-5: media files, storages and the factory\<close>

text \<open>
  The methods print a line and compute a result; the printed output is not modelled.
  A method that may raise returns \<open>Inl\<close> the exception or \<open>Inr\<close> the value.
\<close>

subsection \<open>Python values, dictionaries and strings\<close>

text \<open>
  The values that metadata and keyword arguments hold (\<open>Any\<close> in the annotations):
  \<open>None\<close>, booleans, integers, strings, \<open>datetime\<close> objects (a timestamp) and
  dictionaries with string keys. Floats are left out: they are only stored, and no
  property below computes with them. A dictionary is the list of its items in insertion
  order; its keys are distinct. Dictionaries are values here: that the constructor keeps
  the very dictionary it is given as \<open>metadata\<close>, and updates it in place, is not
  modelled.
\<close>

datatype pyval =
    PyNone
  | PyBool bool
  | PyInt int
  | PyStr string
  | PyDatetime nat
  | PyDict "(string \<times> pyval) list"

type_synonym pydict = "(string \<times> pyval) list"

text \<open>Truth value testing, as \<open>or\<close> applies it; a \<open>datetime\<close> is always true.\<close>

fun truthy :: "pyval \<Rightarrow> bool" where
  "truthy PyNone = False"
| "truthy (PyBool b) = b"
| "truthy (PyInt i) = (i \<noteq> 0)"
| "truthy (PyStr s) = (s \<noteq> [])"
| "truthy (PyDatetime t) = True"
| "truthy (PyDict d) = (d \<noteq> [])"

definition py_or :: "pyval \<Rightarrow> pyval \<Rightarrow> pyval" where
  "py_or x y = (if truthy x then x else y)"

text \<open>
  \<open>d.update(other)\<close> stores the items of \<open>other\<close> one after another: a key that
  \<open>d\<close> has keeps its place and takes the new value, a new key goes to the end.
\<close>

definition dict_update :: "pydict \<Rightarrow> pydict \<Rightarrow> pydict" where
  "dict_update d other = fold (\<lambda>(k, v). AList.update k v) other d"

text \<open>
  \<open>s.split(sep)\<close> for a separator of one character: the pieces between the occurrences
  of the separator, of which there is always at least one. The second branch of the
  \<open>case\<close> is never taken.
\<close>

fun split :: "char \<Rightarrow> string \<Rightarrow> string list" where
  "split sep [] = [[]]"
| "split sep (x # xs) =
     (if x = sep then [] # split sep xs
      else (case split sep xs of w # ws \<Rightarrow> (x # w) # ws | [] \<Rightarrow> [[x]]))"

text \<open>\<open>s.endswith(suffix)\<close>, and \<open>s.endswith(suffixes)\<close> for a tuple of suffixes.\<close>

definition endswith_str :: "string \<Rightarrow> string \<Rightarrow> bool" where
  "endswith_str s suf = (length suf \<le> length s \<and> drop (length s - length suf) s = suf)"

definition endswith :: "string \<Rightarrow> string list \<Rightarrow> bool" where
  "endswith s sufs = list_ex (endswith_str s) sufs"

subsection \<open>Keyword arguments\<close>

text \<open>
  A call \<open>f(a, b, **kw)\<close> of a function with named parameters and \<open>**kwargs\<close>: a
  named parameter takes the value \<open>kw\<close> has for it, or its default \<open>None\<close>;
  the other items of \<open>kw\<close> are collected in \<open>kwargs\<close>.
\<close>

definition kw_get :: "pydict \<Rightarrow> string \<Rightarrow> pyval" where
  "kw_get kw k = (case map_of kw k of Some v \<Rightarrow> v | None \<Rightarrow> PyNone)"

definition kw_rest :: "string list \<Rightarrow> pydict \<Rightarrow> pydict" where
  "kw_rest params kw = filter (\<lambda>(k, v). k \<notin> set params) kw"

text \<open>
  The names of the parameters every constructor takes by position, and of the optional
  parameters of \<open>MediaFile.__init__\<close>.
\<close>

definition positional_params :: "string list" where
  "positional_params = [''self'', ''name'', ''size'']"

definition base_params :: "string list" where
  "base_params = [''created_at'', ''owner'', ''metadata'']"

subsection \<open>class MediaFile and its subclasses\<close>

datatype py_error = ValueError string | TypeError | AttributeError

datatype file_class = AudioFile | VideoFile | PhotoFile

record media_file =
  cls :: file_class
  name :: string
  size_bytes :: int
  created_at :: pyval
  owner :: pyval
  metadata :: pydict

text \<open>
  \<open>MediaFile.__init__(self, name, size, created_at=None, owner=None, metadata=None)\<close>,
  called as \<open>super().__init__(name, size, **kwargs)\<close>. A keyword that is none of the
  three optional parameters raises \<open>TypeError\<close>. The result is the five attributes it
  assigns; \<open>now\<close> is what \<open>datetime.now()\<close> returns. The attribute \<open>metadata\<close> is
  whatever true value was passed, a dictionary or not.
\<close>

definition MediaFile_init ::
  "nat \<Rightarrow> string \<Rightarrow> int \<Rightarrow> pydict \<Rightarrow> py_error + string \<times> int \<times> pyval \<times> pyval \<times> pyval" where
  "MediaFile_init now nm sz kwargs =
     (if list_ex (\<lambda>k. k \<notin> set base_params) (map fst kwargs)
      then Inl TypeError
      else Inr (nm, sz, py_or (kw_get kwargs ''created_at'') (PyDatetime now),
                kw_get kwargs ''owner'', py_or (kw_get kwargs ''metadata'') (PyDict [])))"

text \<open>
  The constructors of the three subclasses have one shape: four optional parameters of
  their own and \<open>**kwargs\<close>, which goes to \<open>MediaFile.__init__\<close>; then
  \<open>self.metadata.update({...})\<close> stores the four parameters under their names, which
  raises \<open>AttributeError\<close> when \<open>self.metadata\<close> is not a dictionary. The positional
  arguments are \<open>self\<close>, \<open>name\<close> and \<open>size\<close>: a keyword of one of these names is a
  second value for the parameter and raises \<open>TypeError\<close>.
\<close>

definition subclass_init ::
  "file_class \<Rightarrow> string list \<Rightarrow> nat \<Rightarrow> string \<Rightarrow> int \<Rightarrow> pydict \<Rightarrow> py_error + media_file" where
  "subclass_init c params now nm sz kw =
     (if list_ex (\<lambda>k. k \<in> set positional_params) (map fst kw) then Inl TypeError
      else
        (case MediaFile_init now nm sz (kw_rest params kw) of
          Inl e \<Rightarrow> Inl e
        | Inr (n, s, created, own, md) \<Rightarrow>
            (case md of
              PyDict d \<Rightarrow>
                Inr \<lparr>cls = c, name = n, size_bytes = s, created_at = created, owner = own,
                     metadata = dict_update d (map (\<lambda>p. (p, kw_get kw p)) params)\<rparr>
            | _ \<Rightarrow> Inl AttributeError)))"

definition AudioFile_init :: "nat \<Rightarrow> string \<Rightarrow> int \<Rightarrow> pydict \<Rightarrow> py_error + media_file" where
  "AudioFile_init =
     subclass_init AudioFile [''duration'', ''bitrate'', ''sample_rate'', ''channels'']"

definition VideoFile_init :: "nat \<Rightarrow> string \<Rightarrow> int \<Rightarrow> pydict \<Rightarrow> py_error + media_file" where
  "VideoFile_init =
     subclass_init VideoFile [''duration'', ''resolution'', ''frame_rate'', ''codec'']"

definition PhotoFile_init :: "nat \<Rightarrow> string \<Rightarrow> int \<Rightarrow> pydict \<Rightarrow> py_error + media_file" where
  "PhotoFile_init =
     subclass_init PhotoFile [''width'', ''height'', ''color_space'', ''camera_model'']"

fun get_file_type :: "media_file \<Rightarrow> string" where
  "get_file_type self =
     (case cls self of AudioFile \<Rightarrow> ''Audio'' | VideoFile \<Rightarrow> ''Video'' | PhotoFile \<Rightarrow> ''Photo'')"

text \<open>\<open>update_metadata\<close> returns nothing: the result is the object after the call.\<close>

definition update_metadata :: "pydict \<Rightarrow> media_file \<Rightarrow> media_file" where
  "update_metadata md self = self\<lparr>metadata := dict_update (metadata self) md\<rparr>"

text \<open>
  \<open>convert\<close> builds the new name from the piece of the name before its first dot, and
  passes the items of the metadata as keyword arguments to the constructor of its own
  class. It does not change \<open>self\<close>.
\<close>

definition AudioFile_convert :: "nat \<Rightarrow> string \<Rightarrow> media_file \<Rightarrow> py_error + media_file" where
  "AudioFile_convert now target_format self =
     (let new_name = hd (split (CHR ''.'') (name self)) @ ''.'' @ target_format
      in AudioFile_init now new_name (size_bytes self) (metadata self))"

definition VideoFile_convert :: "nat \<Rightarrow> string \<Rightarrow> media_file \<Rightarrow> py_error + media_file" where
  "VideoFile_convert now target_format self =
     (let new_name = hd (split (CHR ''.'') (name self)) @ ''.'' @ target_format
      in VideoFile_init now new_name (size_bytes self) (metadata self))"

definition PhotoFile_convert :: "nat \<Rightarrow> string \<Rightarrow> media_file \<Rightarrow> py_error + media_file" where
  "PhotoFile_convert now target_format self =
     (let new_name = hd (split (CHR ''.'') (name self)) @ ''.'' @ target_format
      in PhotoFile_init now new_name (size_bytes self) (metadata self))"

text \<open>The call \<open>m.convert(target_format)\<close> runs the method of the class of \<open>m\<close>.\<close>

definition convert :: "nat \<Rightarrow> string \<Rightarrow> media_file \<Rightarrow> py_error + media_file" where
  "convert now target_format self =
     (case cls self of
        AudioFile \<Rightarrow> AudioFile_convert now target_format self
      | VideoFile \<Rightarrow> VideoFile_convert now target_format self
      | PhotoFile \<Rightarrow> PhotoFile_convert now target_format self)"

subsection \<open>The storages\<close>

text \<open>
  The four storage classes with the attributes their constructors store. Their
  \<open>load\<close> methods have the same body but for the line they print.
\<close>

datatype storage =
    LocalStorage
  | CloudStorage string "(string \<times> string) list"
  | RemoteStorage string int string string
  | S3Storage string string string string

fun load :: "storage \<Rightarrow> nat \<Rightarrow> string \<Rightarrow> py_error + media_file" where
  "load LocalStorage now path =
     (if endswith path [''.mp3'', ''.wav'', ''.flac'']
      then AudioFile_init now (last (split (CHR ''/'') path)) 1000000 []
      else if endswith path [''.mp4'', ''.avi'', ''.mov'']
      then VideoFile_init now (last (split (CHR ''/'') path)) 5000000 []
      else if endswith path [''.jpg'', ''.png'', ''.gif'']
      then PhotoFile_init now (last (split (CHR ''/'') path)) 500000 []
      else Inl (ValueError path))"
| "load (CloudStorage provider credentials) now path =
     (if endswith path [''.mp3'', ''.wav'', ''.flac'']
      then AudioFile_init now (last (split (CHR ''/'') path)) 1000000 []
      else if endswith path [''.mp4'', ''.avi'', ''.mov'']
      then VideoFile_init now (last (split (CHR ''/'') path)) 5000000 []
      else if endswith path [''.jpg'', ''.png'', ''.gif'']
      then PhotoFile_init now (last (split (CHR ''/'') path)) 500000 []
      else Inl (ValueError path))"
| "load (RemoteStorage host port username password) now path =
     (if endswith path [''.mp3'', ''.wav'', ''.flac'']
      then AudioFile_init now (last (split (CHR ''/'') path)) 1000000 []
      else if endswith path [''.mp4'', ''.avi'', ''.mov'']
      then VideoFile_init now (last (split (CHR ''/'') path)) 5000000 []
      else if endswith path [''.jpg'', ''.png'', ''.gif'']
      then PhotoFile_init now (last (split (CHR ''/'') path)) 500000 []
      else Inl (ValueError path))"
| "load (S3Storage bucket region access_key secret_key) now path =
     (if endswith path [''.mp3'', ''.wav'', ''.flac'']
      then AudioFile_init now (last (split (CHR ''/'') path)) 1000000 []
      else if endswith path [''.mp4'', ''.avi'', ''.mov'']
      then VideoFile_init now (last (split (CHR ''/'') path)) 5000000 []
      else if endswith path [''.jpg'', ''.png'', ''.gif'']
      then PhotoFile_init now (last (split (CHR ''/'') path)) 500000 []
      else Inl (ValueError path))"

subsection \<open>class MediaFileFactory\<close>

text \<open>
  \<open>create_from_path(path: str, size: int, **kwargs)\<close> is a static method, called as
  \<open>create_from_path(path, size, **kw)\<close>. Its own parameters are \<open>path\<close> and
  \<open>size\<close>: a keyword of one of these names is a second value for the parameter, and
  the call raises \<open>TypeError\<close> before the body runs. The other keywords are its
  \<open>kwargs\<close>.
\<close>

definition factory_params :: "string list" where
  "factory_params = [''path'', ''size'']"

definition create_from_path :: "nat \<Rightarrow> string \<Rightarrow> int \<Rightarrow> pydict \<Rightarrow> py_error + media_file" where
  "create_from_path now path sz kwargs =
     (if list_ex (\<lambda>k. k \<in> set factory_params) (map fst kwargs) then Inl TypeError
      else
        (let filename = last (split (CHR ''/'') path) in
         if endswith path [''.mp3'', ''.wav'', ''.flac'']
         then AudioFile_init now filename sz kwargs
         else if endswith path [''.mp4'', ''.avi'', ''.mov'']
         then VideoFile_init now filename sz kwargs
         else if endswith path [''.jpg'', ''.png'', ''.gif'']
         then PhotoFile_init now filename sz kwargs
         else Inl (ValueError path)))"

text \<open>
  The keyword arguments a subclass constructor with the parameters \<open>params\<close> accepts:
  every keyword is one of its parameters or of the three of \<open>MediaFile.__init__\<close>, and
  the value for \<open>metadata\<close> is a dictionary or a false value.
\<close>

fun dict_or_false :: "pyval \<Rightarrow> bool" where
  "dict_or_false (PyDict d) = True"
| "dict_or_false v = (\<not> truthy v)"

definition accepts_kwargs :: "string list \<Rightarrow> pydict \<Rightarrow> bool" where
  "accepts_kwargs params kw =
     (list_all (\<lambda>k. k \<in> set (params @ base_params)) (map fst kw) \<and>
      dict_or_false (kw_get kw ''metadata''))"

section \<open>Properties of hw-6\<close>

text \<open>
  C1. \<open>Vehicle.move(distance)\<close> computes
  \<open>fuel_needed = distance * fuel_consumption\<close>. When \<open>fuel_needed > fuel\<close> it raises
  \<open>NotEnoughFuel\<close> and leaves the whole object, fuel included, as it was; when
  \<open>fuel_needed \<le> fuel\<close> it returns and only \<open>fuel\<close> has changed, lowered by exactly
  \<open>fuel_needed\<close>. For \<open>Vehicle(fuel=10, fuel_consumption=2)\<close>, \<open>move(4)\<close> leaves
  \<open>fuel = 2\<close>, and \<open>move(2)\<close> after it raises \<open>NotEnoughFuel\<close> (it needs 4 and has 2).
\<close>

theorem move_fuel:
  "(distance * fuel_consumption v > fuel v \<longrightarrow>
      move distance v = (Inl (NotEnoughFuel (distance * fuel_consumption v) (fuel v)), v)) \<and>
   (distance * fuel_consumption v \<le> fuel v \<longrightarrow>
      move distance v = (Inr (), v\<lparr>fuel := fuel v - distance * fuel_consumption v\<rparr>)) \<and>
   move 4 (Vehicle_init 0 10 2) = (Inr (), (Vehicle_init 0 10 2)\<lparr>fuel := 2\<rparr>) \<and>
   move 2 (snd (move 4 (Vehicle_init 0 10 2))) =
     (Inl (NotEnoughFuel 4 2), (Vehicle_init 0 10 2)\<lparr>fuel := 2\<rparr>)"
  by (simp add: move_def Vehicle_init_def)

text \<open>
  Both branches of C1 at \<open>Vehicle(fuel=10, fuel_consumption=2)\<close>: \<open>move(3)\<close> needs 6 and
  succeeds, \<open>move(6)\<close> needs 12 and raises.
\<close>

theorem move_fuel_witness:
  "move 3 (Vehicle_init 0 10 2) = (Inr (), (Vehicle_init 0 10 2)\<lparr>fuel := 4\<rparr>) \<and>
   move 6 (Vehicle_init 0 10 2) = (Inl (NotEnoughFuel 12 10), Vehicle_init 0 10 2)"
  using move_fuel [where distance = 3 and v = "Vehicle_init 0 10 2"]
    move_fuel [where distance = 6 and v = "Vehicle_init 0 10 2"]
  by (simp add: Vehicle_init_def)

text \<open>
  C2. \<open>Plane.load_cargo(amount)\<close> raises \<open>CargoOverload\<close> exactly when
  \<open>cargo + amount > max_cargo\<close>, and then leaves the object, cargo included, as it was;
  otherwise it returns and only \<open>cargo\<close> has changed, raised by exactly \<open>amount\<close>. For
  \<open>Plane(max_cargo=100)\<close>, \<open>load_cargo(60)\<close> succeeds and \<open>load_cargo(50)\<close> after it
  raises \<open>CargoOverload\<close>.
\<close>

theorem load_cargo_overload:
  "((\<exists>a c m. fst (load_cargo amount p) = Inl (CargoOverload a c m)) = (cargo p + amount > max_cargo p)) \<and>
   (cargo p + amount > max_cargo p \<longrightarrow>
      load_cargo amount p = (Inl (CargoOverload amount (cargo p) (max_cargo p)), p)) \<and>
   (\<not> cargo p + amount > max_cargo p \<longrightarrow>
      load_cargo amount p = (Inr (), p\<lparr>cargo := cargo p + amount\<rparr>)) \<and>
   load_cargo 60 (Plane_init 0 0 0 100) = (Inr (), (Plane_init 0 0 0 100)\<lparr>cargo := 60\<rparr>) \<and>
   load_cargo 50 (snd (load_cargo 60 (Plane_init 0 0 0 100))) =
     (Inl (CargoOverload 50 60 100), (Plane_init 0 0 0 100)\<lparr>cargo := 60\<rparr>)"
  by (simp add: load_cargo_def Plane_init_def)

text \<open>
  Both branches of C2 on a plane that holds 60 of 100: loading 40 fills it, loading 41
  raises.
\<close>

theorem load_cargo_overload_witness:
  "load_cargo 40 ((Plane_init 0 0 0 100)\<lparr>cargo := 60\<rparr>) =
     (Inr (), (Plane_init 0 0 0 100)\<lparr>cargo := 100\<rparr>) \<and>
   load_cargo 41 ((Plane_init 0 0 0 100)\<lparr>cargo := 60\<rparr>) =
     (Inl (CargoOverload 41 60 100), (Plane_init 0 0 0 100)\<lparr>cargo := 60\<rparr>)"
  using load_cargo_overload [where amount = 40 and p = "(Plane_init 0 0 0 100)\<lparr>cargo := 60\<rparr>"]
    load_cargo_overload [where amount = 41 and p = "(Plane_init 0 0 0 100)\<lparr>cargo := 60\<rparr>"]
  by (simp add: Plane_init_def)

text \<open>
  C5, as the specification states it, says that \<open>start\<close> raises \<open>LowFuelError\<close> exactly
  when \<open>started == false\<close> and \<open>fuel == 0\<close>. The guard of the code is \<open>fuel > 0\<close>, and
  the constructor accepts any number: \<open>Vehicle(fuel=-1).start()\<close> raises although the fuel
  is not 0.
\<close>

theorem start_negative_fuel_counterexample:
  "fst (start (Vehicle_init 0 (- 1) 0)) = Inl LowFuelError \<and>
   \<not> (started (Vehicle_init 0 (- 1) 0) = False \<and> fuel (Vehicle_init 0 (- 1) 0) = 0)"
  by (simp add: start_def Vehicle_init_def)

text \<open>
  C5, amended. \<open>Vehicle.start\<close> raises \<open>LowFuelError\<close> exactly when
  \<open>started == false\<close> and \<open>fuel \<le> 0\<close>, and returns otherwise; when it raises it changes
  no field; when \<open>started == false\<close> and \<open>fuel > 0\<close> it sets \<open>started\<close> to true and
  changes nothing else.
\<close>

theorem start_low_fuel:
  "fst (start v) = (if started v = False \<and> fuel v \<le> 0 then Inl LowFuelError else Inr ()) \<and>
   (fst (start v) \<noteq> Inr () \<longrightarrow> snd (start v) = v) \<and>
   (started v = False \<and> fuel v > 0 \<longrightarrow> start v = (Inr (), v\<lparr>started := True\<rparr>))"
  by (simp add: start_def)

text \<open>
  C5 amended, at an empty tank, at a negative fuel level, and at a tank with fuel.
\<close>

theorem start_low_fuel_witness:
  "start (Vehicle_init 0 0 0) = (Inl LowFuelError, Vehicle_init 0 0 0) \<and>
   start (Vehicle_init 0 (- 3) 0) = (Inl LowFuelError, Vehicle_init 0 (- 3) 0) \<and>
   start (Vehicle_init 0 5 0) = (Inr (), (Vehicle_init 0 5 0)\<lparr>started := True\<rparr>)"
  using start_low_fuel [of "Vehicle_init 0 0 0"] start_low_fuel [of "Vehicle_init 0 (- 3) 0"]
    start_low_fuel [of "Vehicle_init 0 5 0"]
  by (simp add: Vehicle_init_def prod_eq_iff)

text \<open>
  C7. \<open>Plane.remove_all_cargo()\<close> returns the cargo held immediately before the call
  and sets \<open>cargo\<close> to 0; no other field changes.
\<close>

theorem remove_all_cargo_returns_previous:
  "remove_all_cargo p = (cargo p, p\<lparr>cargo := 0\<rparr>)"
  by (simp add: remove_all_cargo_def)

subsection \<open>Invariants of call sequences\<close>

text \<open>
  Every call keeps the fuel nonnegative, and keeps the cargo within a nonnegative
  \<open>max_cargo\<close>, which no call changes.
\<close>

lemma vehicle_step_fuel_nonneg: "0 \<le> fuel v \<Longrightarrow> 0 \<le> fuel (vehicle_step c v)"
  by (cases c) (simp_all add: start_def move_def Let_def)

lemma vehicle_calls_fuel_nonneg: "0 \<le> fuel v \<Longrightarrow> 0 \<le> fuel (vehicle_calls cs v)"
  by (induction cs arbitrary: v) (simp_all add: vehicle_step_fuel_nonneg)

lemma plane_step_max_cargo: "max_cargo (plane_step c p) = max_cargo p"
  by (cases c) (simp_all add: load_cargo_def remove_all_cargo_def)

lemma plane_step_cargo_bound:
  "0 \<le> max_cargo p \<Longrightarrow> cargo p \<le> max_cargo p \<Longrightarrow> cargo (plane_step c p) \<le> max_cargo p"
  by (cases c) (simp_all add: load_cargo_def remove_all_cargo_def)

lemma plane_calls_cargo_bound:
  "0 \<le> max_cargo p \<Longrightarrow> cargo p \<le> max_cargo p \<Longrightarrow>
   cargo (plane_calls cs p) \<le> max_cargo (plane_calls cs p)"
proof (induction cs arbitrary: p)
  case Nil
  then show ?case by simp
next
  case (Cons c cs)
  have "0 \<le> max_cargo (plane_step c p)"
    using Cons.prems(1) by (simp add: plane_step_max_cargo)
  moreover have "cargo (plane_step c p) \<le> max_cargo (plane_step c p)"
    using Cons.prems by (simp add: plane_step_max_cargo plane_step_cargo_bound)
  ultimately show ?case
    using Cons.IH [of "plane_step c p"] by simp
qed

text \<open>
  C8. A vehicle constructed with \<open>fuel \<ge> 0\<close> and \<open>fuel_consumption \<ge> 0\<close> has
  \<open>fuel \<ge> 0\<close> after every sequence of \<open>start\<close> and \<open>move\<close> calls with nonnegative
  distances. A plane whose constructor leaves \<open>cargo \<le> max_cargo\<close> (the constructor
  sets \<open>cargo\<close> to 0, so this is \<open>0 \<le> max_cargo\<close>) has \<open>cargo \<le> max_cargo\<close> after
  every sequence of \<open>load_cargo\<close> and \<open>remove_all_cargo\<close> calls. In both, a call that
  raises is part of the sequence and the calls after it run.
\<close>

theorem fuel_and_cargo_invariants:
  "(0 \<le> f \<and> 0 \<le> c \<and> list_all nonneg_distance cs \<longrightarrow>
      0 \<le> fuel (vehicle_calls cs (Vehicle_init w f c))) \<and>
   (cargo (Plane_init w' f' c' m) \<le> max_cargo (Plane_init w' f' c' m) \<longrightarrow>
      cargo (plane_calls ps (Plane_init w' f' c' m)) \<le>
        max_cargo (plane_calls ps (Plane_init w' f' c' m)))"
proof (intro conjI impI)
  assume "0 \<le> f \<and> 0 \<le> c \<and> list_all nonneg_distance cs"
  then have "0 \<le> fuel (Vehicle_init w f c)"
    by (simp add: Vehicle_init_def)
  then show "0 \<le> fuel (vehicle_calls cs (Vehicle_init w f c))"
    by (rule vehicle_calls_fuel_nonneg)
next
  assume "cargo (Plane_init w' f' c' m) \<le> max_cargo (Plane_init w' f' c' m)"
  then have "0 \<le> max_cargo (Plane_init w' f' c' m)"
    and "cargo (Plane_init w' f' c' m) \<le> max_cargo (Plane_init w' f' c' m)"
    by (simp_all add: Plane_init_def)
  then show "cargo (plane_calls ps (Plane_init w' f' c' m)) \<le>
      max_cargo (plane_calls ps (Plane_init w' f' c' m))"
    by (rule plane_calls_cargo_bound)
qed

text \<open>
  C8 on two sequences in which a call raises: the last \<open>move\<close> is refused on an empty
  tank, and the second \<open>load_cargo\<close> is refused.
\<close>

theorem fuel_and_cargo_invariants_witness:
  "fuel (vehicle_calls [Start, Move 4, Move 2, Move 1] (Vehicle_init 0 10 2)) = 0 \<and>
   cargo (plane_calls [Load_cargo 60, Load_cargo 50, Remove_all_cargo, Load_cargo (- 5)]
     (Plane_init 0 0 0 100)) = - 5 \<and>
   0 \<le> fuel (vehicle_calls [Start, Move 4, Move 2, Move 1] (Vehicle_init 0 10 2)) \<and>
   cargo (plane_calls [Load_cargo 60, Load_cargo 50, Remove_all_cargo, Load_cargo (- 5)]
     (Plane_init 0 0 0 100)) \<le>
   max_cargo (plane_calls [Load_cargo 60, Load_cargo 50, Remove_all_cargo, Load_cargo (- 5)]
     (Plane_init 0 0 0 100))"
  using fuel_and_cargo_invariants [where f = 10 and c = 2 and w = 0
      and cs = "[Start, Move 4, Move 2, Move 1]" and w' = 0 and f' = 0 and c' = 0 and m = 100
      and ps = "[Load_cargo 60, Load_cargo 50, Remove_all_cargo, Load_cargo (- 5)]"]
  by (simp add: Vehicle_init_def Plane_init_def start_def move_def load_cargo_def
      remove_all_cargo_def)

text \<open>
  C9. \<open>start\<close> on a vehicle whose \<open>started\<close> is already true returns without raising
  and changes no field, whatever the fuel; so a second \<open>start\<close> after a \<open>start\<close> that
  returned does nothing.
\<close>

theorem start_when_started:
  "(started v \<longrightarrow> start v = (Inr (), v)) \<and>
   (started v \<longrightarrow> start (snd (start v)) = start v) \<and>
   (fst (start v) = Inr () \<longrightarrow> start (snd (start v)) = (Inr (), snd (start v)))"
  by (simp add: start_def)

text \<open>
  C9 at a started vehicle with \<open>fuel = 0\<close>, and at a second \<open>start\<close> after a first
  one that succeeded.
\<close>

theorem start_when_started_witness:
  "start \<lparr>weight = 0, started = True, fuel = 0, fuel_consumption = 0\<rparr> =
     (Inr (), \<lparr>weight = 0, started = True, fuel = 0, fuel_consumption = 0\<rparr>) \<and>
   start (snd (start (Vehicle_init 0 7 1))) = (Inr (), (Vehicle_init 0 7 1)\<lparr>started := True\<rparr>)"
  using start_when_started [of "\<lparr>weight = 0, started = True, fuel = 0, fuel_consumption = 0\<rparr>"]
    start_when_started [of "Vehicle_init 0 7 1"]
  by (simp add: Vehicle_init_def start_def)

text \<open>
  C10. \<open>Plane.load_cargo\<close> has no lower bound on \<open>amount\<close>: on
  \<open>Plane(max_cargo=100)\<close>, which holds no cargo, \<open>load_cargo(-5)\<close> returns and leaves
  \<open>cargo = -5\<close>; and on every plane, below every bound there is an amount that
  \<open>load_cargo\<close> accepts.
\<close>

theorem load_cargo_negative_amount:
  "load_cargo (- 5) (Plane_init 0 0 0 100) = (Inr (), (Plane_init 0 0 0 100)\<lparr>cargo := - 5\<rparr>) \<and>
   cargo (Plane_init 0 0 0 100) = 0 \<and> max_cargo (Plane_init 0 0 0 100) = 100 \<and>
   cargo (snd (load_cargo (- 5) (Plane_init 0 0 0 100))) < 0 \<and>
   (\<forall>(p::plane) b. \<exists>a. a < b \<and> fst (load_cargo a p) = Inr ())"
proof -
  have "\<exists>a. a < b \<and> fst (load_cargo a p) = Inr ()" for p :: plane and b
  proof -
    have "min (b - 1) (max_cargo p - cargo p) < b"
      by simp
    moreover have "fst (load_cargo (min (b - 1) (max_cargo p - cargo p)) p) = Inr ()"
      by (simp add: load_cargo_def)
    ultimately show ?thesis by blast
  qed
  then show ?thesis
    by (simp add: load_cargo_def Plane_init_def)
qed

section \<open>Properties of hw-5\<close>

subsection \<open>Strings and dictionaries\<close>

text \<open>
  \<open>split\<close> never returns the empty list, so the first and the last piece exist; and
  \<open>endswith\<close> holds exactly when one of the suffixes is a suffix of the string.
\<close>

lemma split_not_Nil: "split sep s \<noteq> []"
  by (induction s) (auto split: list.splits)

lemma endswith_str_suffix: "endswith_str s suf = suffix suf s"
proof
  assume "endswith_str s suf"
  then have "s = take (length s - length suf) s @ suf"
    by (metis append_take_drop_id endswith_str_def)
  then show "suffix suf s"
    by (metis suffixI)
next
  assume "suffix suf s"
  then obtain pre where "s = pre @ suf"
    by (auto simp: suffix_def)
  then show "endswith_str s suf"
    by (simp add: endswith_str_def)
qed

lemma endswith_suffix: "endswith s sufs = (\<exists>suf \<in> set sufs. suffix suf s)"
  by (simp add: endswith_def list_ex_iff endswith_str_suffix)

text \<open>
  Lookup in \<open>d.update(other)\<close>: a key of \<open>other\<close> has the value of
  \<open>other\<close>, any other key the value it had in \<open>d\<close>; and the keys stay distinct.
\<close>

lemma dict_update_Cons:
  "dict_update d ((k, v) # other) = dict_update (AList.update k v d) other"
  by (simp add: dict_update_def)

lemma map_of_dict_update:
  "distinct (map fst other) \<Longrightarrow>
   map_of (dict_update d other) x =
     (case map_of other x of Some v \<Rightarrow> Some v | None \<Rightarrow> map_of d x)"
proof (induction other arbitrary: d)
  case Nil
  then show ?case by (simp add: dict_update_def)
next
  case (Cons kv other)
  obtain k v where kv: "kv = (k, v)" by (cases kv)
  from Cons.prems kv have fresh: "map_of other k = None" and dist: "distinct (map fst other)"
    by (auto simp: map_of_eq_None_iff)
  have step: "map_of (dict_update d (kv # other)) x =
      (case map_of other x of Some w \<Rightarrow> Some w | None \<Rightarrow> map_of (AList.update k v d) x)"
    using Cons.IH [OF dist, of "AList.update k v d"] by (simp only: kv dict_update_Cons)
  show ?case
  proof (cases "x = k")
    case True
    with step fresh show ?thesis by (simp add: kv AList.update_conv)
  next
    case False
    with step show ?thesis by (simp add: kv AList.update_conv split: option.split)
  qed
qed

lemma distinct_dict_update:
  "distinct (map fst d) \<Longrightarrow> distinct (map fst (dict_update d other))"
proof (induction other arbitrary: d)
  case Nil
  then show ?case by (simp add: dict_update_def)
next
  case (Cons kv other)
  obtain k v where kv: "kv = (k, v)" by (cases kv)
  have "dict_update d (kv # other) = dict_update (AList.update k v d) other"
    by (simp only: kv dict_update_Cons)
  moreover have "distinct (map fst (AList.update k v d))"
    using Cons.prems by (simp only: AList.distinct_update)
  ultimately show ?case
    using Cons.IH by simp
qed

subsection \<open>update_metadata\<close>

text \<open>
  C6. For every media file \<open>m\<close> and every dictionary \<open>d\<close> (a list of items with
  distinct keys), \<open>m.update_metadata(d)\<close> leaves in \<open>m.metadata\<close> every key of
  \<open>d\<close> with the value of \<open>d\<close> and every key that is not in \<open>d\<close> with its
  previous value (or still absent); no other field of \<open>m\<close> changes.
\<close>

theorem update_metadata_merge:
  assumes "distinct (map fst d)"
  shows "(\<forall>k v. (k, v) \<in> set d \<longrightarrow> map_of (metadata (update_metadata d m)) k = Some v) \<and>
    (\<forall>k. k \<notin> fst ` set d \<longrightarrow>
       map_of (metadata (update_metadata d m)) k = map_of (metadata m) k) \<and>
    update_metadata d m = m\<lparr>metadata := metadata (update_metadata d m)\<rparr>"
proof (intro conjI allI impI)
  have eq: "map_of (metadata (update_metadata d m)) k =
      (case map_of d k of Some v \<Rightarrow> Some v | None \<Rightarrow> map_of (metadata m) k)" for k
    using assms by (simp add: update_metadata_def map_of_dict_update)
  show "map_of (metadata (update_metadata d m)) k = Some v" if "(k, v) \<in> set d" for k v
    using that assms by (simp add: eq)
  show "map_of (metadata (update_metadata d m)) k = map_of (metadata m) k"
    if "k \<notin> fst ` set d" for k
  proof -
    from that have "map_of d k = None"
      by (simp add: map_of_eq_None_iff)
    then show ?thesis by (simp add: eq)
  qed
  show "update_metadata d m = m\<lparr>metadata := metadata (update_metadata d m)\<rparr>"
    by (simp add: update_metadata_def)
qed


text \<open>
  C6 on an audio file whose metadata has \<open>duration\<close> and \<open>bitrate\<close>: the update
  adds \<open>genre\<close>, overwrites \<open>duration\<close> and keeps \<open>bitrate\<close>.
\<close>

theorem update_metadata_merge_witness:
  "map_of (metadata (update_metadata [(''genre'', PyStr ''Rock''), (''duration'', PyInt 300)]
      \<lparr>cls = AudioFile, name = ''song.mp3'', size_bytes = 5000000, created_at = PyDatetime 0,
       owner = PyStr ''John'',
       metadata = [(''duration'', PyInt 240), (''bitrate'', PyInt 320)]\<rparr>)) ''genre'' =
     Some (PyStr ''Rock'') \<and>
   map_of (metadata (update_metadata [(''genre'', PyStr ''Rock''), (''duration'', PyInt 300)]
      \<lparr>cls = AudioFile, name = ''song.mp3'', size_bytes = 5000000, created_at = PyDatetime 0,
       owner = PyStr ''John'',
       metadata = [(''duration'', PyInt 240), (''bitrate'', PyInt 320)]\<rparr>)) ''duration'' =
     Some (PyInt 300) \<and>
   map_of (metadata (update_metadata [(''genre'', PyStr ''Rock''), (''duration'', PyInt 300)]
      \<lparr>cls = AudioFile, name = ''song.mp3'', size_bytes = 5000000, created_at = PyDatetime 0,
       owner = PyStr ''John'',
       metadata = [(''duration'', PyInt 240), (''bitrate'', PyInt 320)]\<rparr>)) ''bitrate'' =
     Some (PyInt 320)"
proof -
  have d: "distinct (map fst [(''genre'', PyStr ''Rock''), (''duration'', PyInt 300)])"
    by simp
  show ?thesis
    using update_metadata_merge [OF d, of
      "\<lparr>cls = AudioFile, name = ''song.mp3'', size_bytes = 5000000, created_at = PyDatetime 0,
        owner = PyStr ''John'',
        metadata = [(''duration'', PyInt 240), (''bitrate'', PyInt 320)]\<rparr>"]
    by simp
qed

subsection \<open>Constructors and keyword arguments\<close>

text \<open>
  What is left of the keyword arguments after the named parameters are taken.
\<close>

lemma map_of_kw_rest: "k \<notin> set params \<Longrightarrow> map_of (kw_rest params kw) k = map_of kw k"
  by (induction kw) (auto simp: kw_rest_def)

lemma kw_get_kw_rest: "k \<notin> set params \<Longrightarrow> kw_get (kw_rest params kw) k = kw_get kw k"
  by (simp add: kw_get_def map_of_kw_rest)

lemma keys_kw_rest: "set (map fst (kw_rest params kw)) = set (map fst kw) - set params"
  by (auto simp: kw_rest_def)

text \<open>
  The tests on the keywords, as statements about sets of names.
\<close>

lemma list_ex_not_member: "list_ex (\<lambda>k. k \<notin> set bs) ks = (\<not> set ks \<subseteq> set bs)"
  by (auto simp: list_ex_iff)

lemma list_ex_member: "list_ex (\<lambda>k. k \<in> set bs) ks = (set ks \<inter> set bs \<noteq> {})"
  by (auto simp: list_ex_iff)

lemma list_all_member: "list_all (\<lambda>k. k \<in> set bs) ks = (set ks \<subseteq> set bs)"
  by (auto simp: list_all_iff)

text \<open>
  \<open>MediaFile.__init__\<close> returns exactly when every keyword is one of its optional
  parameters. A subclass constructor returns an object of its class, with the name and
  the size it was given, when it accepts the keyword arguments, and raises otherwise.
\<close>

lemma MediaFile_init_accepted:
  assumes "set (map fst kwargs) \<subseteq> set base_params"
  shows "MediaFile_init now nm sz kwargs =
    Inr (nm, sz, py_or (kw_get kwargs ''created_at'') (PyDatetime now),
         kw_get kwargs ''owner'', py_or (kw_get kwargs ''metadata'') (PyDict []))"
  unfolding MediaFile_init_def list_ex_not_member using assms by simp

lemma MediaFile_init_rejected:
  assumes "\<not> set (map fst kwargs) \<subseteq> set base_params"
  shows "MediaFile_init now nm sz kwargs = Inl TypeError"
  unfolding MediaFile_init_def list_ex_not_member using assms by simp

lemma py_or_metadata_dict:
  "dict_or_false v \<Longrightarrow> \<exists>d. py_or v (PyDict []) = PyDict d"
  by (cases v) (simp_all add: py_or_def)


lemma metadata_in_base_params: "''metadata'' \<in> set base_params"
  by (simp add: base_params_def)

lemma subclass_init_accepted:
  assumes acc: "accepts_kwargs params kw"
    and pos: "set params \<inter> set positional_params = {}"
    and base: "set params \<inter> set base_params = {}"
    and pos_base: "set base_params \<inter> set positional_params = {}"
  shows "\<exists>m. subclass_init c params now nm sz kw = Inr m \<and> cls m = c \<and> name m = nm \<and>
    size_bytes m = sz"
proof -
  from acc have keys: "set (map fst kw) \<subseteq> set params \<union> set base_params"
    and md: "dict_or_false (kw_get kw ''metadata'')"
    unfolding accepts_kwargs_def list_all_member by simp_all
  from keys pos pos_base have "set (map fst kw) \<inter> set positional_params = {}"
    by blast
  then have no_pos: "\<not> list_ex (\<lambda>k. k \<in> set positional_params) (map fst kw)"
    unfolding list_ex_member by simp
  from keys have "set (map fst (kw_rest params kw)) \<subseteq> set base_params"
    unfolding keys_kw_rest by blast
  then have init: "MediaFile_init now nm sz (kw_rest params kw) =
      Inr (nm, sz, py_or (kw_get (kw_rest params kw) ''created_at'') (PyDatetime now),
           kw_get (kw_rest params kw) ''owner'',
           py_or (kw_get (kw_rest params kw) ''metadata'') (PyDict []))"
    by (rule MediaFile_init_accepted)
  from base metadata_in_base_params have "''metadata'' \<notin> set params"
    by blast
  then have eq: "kw_get (kw_rest params kw) ''metadata'' = kw_get kw ''metadata''"
    by (rule kw_get_kw_rest)
  have "\<exists>d. py_or (kw_get kw ''metadata'') (PyDict []) = PyDict d"
    using md by (rule py_or_metadata_dict)
  then have "\<exists>d. py_or (kw_get (kw_rest params kw) ''metadata'') (PyDict []) = PyDict d"
    by (simp only: eq)
  then obtain d where d: "py_or (kw_get (kw_rest params kw) ''metadata'') (PyDict []) = PyDict d"
    by blast
  have "subclass_init c params now nm sz kw =
      Inr \<lparr>cls = c, name = nm, size_bytes = sz,
           created_at = py_or (kw_get (kw_rest params kw) ''created_at'') (PyDatetime now),
           owner = kw_get (kw_rest params kw) ''owner'',
           metadata = dict_update d (map (\<lambda>p. (p, kw_get kw p)) params)\<rparr>"
    unfolding subclass_init_def using no_pos by (simp add: init d)
  then show ?thesis by simp
qed

lemma subclass_init_rejected:
  assumes rej: "\<not> accepts_kwargs params kw"
    and base: "set params \<inter> set base_params = {}"
  shows "\<exists>e. subclass_init c params now nm sz kw = Inl e"
proof (cases "list_ex (\<lambda>k. k \<in> set positional_params) (map fst kw)")
  case True
  then show ?thesis unfolding subclass_init_def by simp
next
  case no_pos: False
  show ?thesis
  proof (cases "set (map fst kw) \<subseteq> set params \<union> set base_params")
    case False
    then have "\<not> set (map fst (kw_rest params kw)) \<subseteq> set base_params"
      unfolding keys_kw_rest by blast
    then have "MediaFile_init now nm sz (kw_rest params kw) = Inl TypeError"
      by (rule MediaFile_init_rejected)
    then show ?thesis unfolding subclass_init_def using no_pos by simp
  next
    case True
    then have "set (map fst (kw_rest params kw)) \<subseteq> set base_params"
      unfolding keys_kw_rest by blast
    then have init: "MediaFile_init now nm sz (kw_rest params kw) =
        Inr (nm, sz, py_or (kw_get (kw_rest params kw) ''created_at'') (PyDatetime now),
             kw_get (kw_rest params kw) ''owner'',
             py_or (kw_get (kw_rest params kw) ''metadata'') (PyDict []))"
      by (rule MediaFile_init_accepted)
    from base metadata_in_base_params have "''metadata'' \<notin> set params"
      by blast
    then have eq: "kw_get (kw_rest params kw) ''metadata'' = kw_get kw ''metadata''"
      by (rule kw_get_kw_rest)
    from rej True have "\<not> dict_or_false (kw_get kw ''metadata'')"
      unfolding accepts_kwargs_def list_all_member by simp
    then have "\<forall>d. py_or (kw_get kw ''metadata'') (PyDict []) \<noteq> PyDict d"
      by (cases "kw_get kw ''metadata''") (simp_all add: py_or_def)
    then have "subclass_init c params now nm sz kw = Inl AttributeError"
      unfolding subclass_init_def using no_pos
      by (cases "py_or (kw_get kw ''metadata'') (PyDict [])") (simp_all add: init eq)
    then show ?thesis by simp
  qed
qed

text \<open>
  The three constructors: their own parameters are none of the positional and none of
  the base parameters.
\<close>

lemma AudioFile_init_accepted:
  assumes "accepts_kwargs [''duration'', ''bitrate'', ''sample_rate'', ''channels''] kw"
  shows "\<exists>m. AudioFile_init now nm sz kw = Inr m \<and> cls m = AudioFile"
proof -
  have "\<exists>m. subclass_init AudioFile [''duration'', ''bitrate'', ''sample_rate'', ''channels'']
      now nm sz kw = Inr m \<and> cls m = AudioFile \<and> name m = nm \<and> size_bytes m = sz"
    using assms by (rule subclass_init_accepted) (simp_all add: positional_params_def base_params_def)
  then show ?thesis unfolding AudioFile_init_def by blast
qed

lemma VideoFile_init_accepted:
  assumes "accepts_kwargs [''duration'', ''resolution'', ''frame_rate'', ''codec''] kw"
  shows "\<exists>m. VideoFile_init now nm sz kw = Inr m \<and> cls m = VideoFile"
proof -
  have "\<exists>m. subclass_init VideoFile [''duration'', ''resolution'', ''frame_rate'', ''codec'']
      now nm sz kw = Inr m \<and> cls m = VideoFile \<and> name m = nm \<and> size_bytes m = sz"
    using assms by (rule subclass_init_accepted) (simp_all add: positional_params_def base_params_def)
  then show ?thesis unfolding VideoFile_init_def by blast
qed

lemma PhotoFile_init_accepted:
  assumes "accepts_kwargs [''width'', ''height'', ''color_space'', ''camera_model''] kw"
  shows "\<exists>m. PhotoFile_init now nm sz kw = Inr m \<and> cls m = PhotoFile"
proof -
  have "\<exists>m. subclass_init PhotoFile [''width'', ''height'', ''color_space'', ''camera_model'']
      now nm sz kw = Inr m \<and> cls m = PhotoFile \<and> name m = nm \<and> size_bytes m = sz"
    using assms by (rule subclass_init_accepted) (simp_all add: positional_params_def base_params_def)
  then show ?thesis unfolding PhotoFile_init_def by blast
qed

lemma accepts_no_kwargs: "accepts_kwargs params []"
  by (simp add: accepts_kwargs_def kw_get_def)

subsection \<open>Dispatch on the extension\<close>

text \<open>
  Two suffixes of one string are suffixes of each other one way or the other. No
  extension of one group is a suffix of an extension of another group, so a path ends
  in extensions of at most one group.
\<close>

lemma endswith_exclusive:
  assumes a: "endswith s as"
    and ab: "list_all (\<lambda>a. list_all (\<lambda>b. \<not> endswith_str a b \<and> \<not> endswith_str b a) bs) as"
  shows "\<not> endswith s bs"
proof
  assume "endswith s bs"
  then obtain b where b: "b \<in> set bs" "suffix b s"
    unfolding endswith_suffix by blast
  from a obtain a where a': "a \<in> set as" "suffix a s"
    unfolding endswith_suffix by blast
  from a'(2) b(2) have "suffix a b \<or> suffix b a"
    by (rule suffix_same_cases)
  moreover from ab a'(1) b(1) have "\<not> suffix b a \<and> \<not> suffix a b"
    unfolding list_all_iff endswith_str_suffix by blast
  ultimately show False by blast
qed

lemma video_not_audio:
  "endswith path [''.mp4'', ''.avi'', ''.mov''] \<Longrightarrow> \<not> endswith path [''.mp3'', ''.wav'', ''.flac'']"
  by (erule endswith_exclusive) (simp add: endswith_str_def)

lemma photo_not_audio:
  "endswith path [''.jpg'', ''.png'', ''.gif''] \<Longrightarrow> \<not> endswith path [''.mp3'', ''.wav'', ''.flac'']"
  by (erule endswith_exclusive) (simp add: endswith_str_def)

lemma photo_not_video:
  "endswith path [''.jpg'', ''.png'', ''.gif''] \<Longrightarrow> \<not> endswith path [''.mp4'', ''.avi'', ''.mov'']"
  by (erule endswith_exclusive) (simp add: endswith_str_def)

lemma endswith3: "endswith s [a, b, c] = (suffix a s \<or> suffix b s \<or> suffix c s)"
  by (simp add: endswith_suffix)

text \<open>
  The four \<open>load\<close> methods are one function of the path: the first group of
  extensions that matches selects the constructor. So is the factory, once its keyword
  arguments are bound: a keyword named \<open>path\<close> or \<open>size\<close> raises \<open>TypeError\<close>
  whatever the path, and keyword arguments that a constructor accepts have no such
  keyword.
\<close>

lemma load_cases:
  "load st now path =
     (if endswith path [''.mp3'', ''.wav'', ''.flac'']
      then AudioFile_init now (last (split (CHR ''/'') path)) 1000000 []
      else if endswith path [''.mp4'', ''.avi'', ''.mov'']
      then VideoFile_init now (last (split (CHR ''/'') path)) 5000000 []
      else if endswith path [''.jpg'', ''.png'', ''.gif'']
      then PhotoFile_init now (last (split (CHR ''/'') path)) 500000 []
      else Inl (ValueError path))"
  by (cases st) (simp_all only: load.simps)

text \<open>
  Binding the keyword arguments of the factory to its own parameters.
\<close>

lemma list_ex_member_pair:
  "list_ex (\<lambda>k. k \<in> set [a, b]) (map fst kw) = (a \<in> fst ` set kw \<or> b \<in> fst ` set kw)"
  by (auto simp: list_ex_iff)

lemma factory_keyword:
  "list_ex (\<lambda>k. k \<in> set factory_params) (map fst kw) =
     (''path'' \<in> fst ` set kw \<or> ''size'' \<in> fst ` set kw)"
  unfolding factory_params_def by (rule list_ex_member_pair)

lemma create_from_path_keyword:
  assumes "''path'' \<in> fst ` set kwargs \<or> ''size'' \<in> fst ` set kwargs"
  shows "create_from_path now path sz kwargs = Inl TypeError"
  unfolding create_from_path_def factory_keyword using assms by (simp only: if_True)

lemma create_from_path_cases:
  assumes "''path'' \<notin> fst ` set kwargs" and "''size'' \<notin> fst ` set kwargs"
  shows "create_from_path now path sz kwargs =
     (if endswith path [''.mp3'', ''.wav'', ''.flac'']
      then AudioFile_init now (last (split (CHR ''/'') path)) sz kwargs
      else if endswith path [''.mp4'', ''.avi'', ''.mov'']
      then VideoFile_init now (last (split (CHR ''/'') path)) sz kwargs
      else if endswith path [''.jpg'', ''.png'', ''.gif'']
      then PhotoFile_init now (last (split (CHR ''/'') path)) sz kwargs
      else Inl (ValueError path))"
proof -
  from assms have "(''path'' \<in> fst ` set kwargs \<or> ''size'' \<in> fst ` set kwargs) = False"
    by blast
  then show ?thesis
    unfolding create_from_path_def factory_keyword Let_def by (simp only: if_False)
qed

lemma not_in_base_params:
  "''path'' \<notin> set base_params" "''size'' \<notin> set base_params"
  by (simp_all add: base_params_def)

lemma accepted_kwargs_bind:
  assumes acc: "accepts_kwargs params kw"
    and params: "''path'' \<notin> set params" "''size'' \<notin> set params"
  shows "''path'' \<notin> fst ` set kw" and "''size'' \<notin> fst ` set kw"
proof -
  from acc have "set (map fst kw) \<subseteq> set (params @ base_params)"
    unfolding accepts_kwargs_def list_all_member by (rule conjunct1)
  then have keys: "fst ` set kw \<subseteq> set params \<union> set base_params"
    by (simp only: set_map set_append)
  from keys params(1) not_in_base_params(1) show "''path'' \<notin> fst ` set kw"
    by blast
  from keys params(2) not_in_base_params(2) show "''size'' \<notin> fst ` set kw"
    by blast
qed

lemma audio_paths:
  assumes "endswith path [''.mp3'', ''.wav'', ''.flac'']"
  shows "load st now path = AudioFile_init now (last (split (CHR ''/'') path)) 1000000 []"
    and "''path'' \<notin> fst ` set kwargs \<Longrightarrow> ''size'' \<notin> fst ` set kwargs \<Longrightarrow>
      create_from_path now path sz kwargs =
        AudioFile_init now (last (split (CHR ''/'') path)) sz kwargs"
proof -
  show "load st now path = AudioFile_init now (last (split (CHR ''/'') path)) 1000000 []"
    using assms by (simp only: load_cases if_True)
  show "create_from_path now path sz kwargs =
      AudioFile_init now (last (split (CHR ''/'') path)) sz kwargs"
    if "''path'' \<notin> fst ` set kwargs" and "''size'' \<notin> fst ` set kwargs"
    unfolding create_from_path_cases [OF that] using assms by (simp only: if_True)
qed

lemma video_paths:
  assumes "endswith path [''.mp4'', ''.avi'', ''.mov'']"
  shows "load st now path = VideoFile_init now (last (split (CHR ''/'') path)) 5000000 []"
    and "''path'' \<notin> fst ` set kwargs \<Longrightarrow> ''size'' \<notin> fst ` set kwargs \<Longrightarrow>
      create_from_path now path sz kwargs =
        VideoFile_init now (last (split (CHR ''/'') path)) sz kwargs"
proof -
  note no = video_not_audio [OF assms]
  show "load st now path = VideoFile_init now (last (split (CHR ''/'') path)) 5000000 []"
    using assms no by (simp only: load_cases if_True if_False)
  show "create_from_path now path sz kwargs =
      VideoFile_init now (last (split (CHR ''/'') path)) sz kwargs"
    if "''path'' \<notin> fst ` set kwargs" and "''size'' \<notin> fst ` set kwargs"
    unfolding create_from_path_cases [OF that] using assms no by (simp only: if_True if_False)
qed

lemma photo_paths:
  assumes "endswith path [''.jpg'', ''.png'', ''.gif'']"
  shows "load st now path = PhotoFile_init now (last (split (CHR ''/'') path)) 500000 []"
    and "''path'' \<notin> fst ` set kwargs \<Longrightarrow> ''size'' \<notin> fst ` set kwargs \<Longrightarrow>
      create_from_path now path sz kwargs =
        PhotoFile_init now (last (split (CHR ''/'') path)) sz kwargs"
proof -
  note no = photo_not_audio [OF assms] photo_not_video [OF assms]
  show "load st now path = PhotoFile_init now (last (split (CHR ''/'') path)) 500000 []"
    using assms no by (simp only: load_cases if_True if_False)
  show "create_from_path now path sz kwargs =
      PhotoFile_init now (last (split (CHR ''/'') path)) sz kwargs"
    if "''path'' \<notin> fst ` set kwargs" and "''size'' \<notin> fst ` set kwargs"
    unfolding create_from_path_cases [OF that] using assms no by (simp only: if_True if_False)
qed

lemma other_paths:
  assumes "\<not> endswith path [''.mp3'', ''.wav'', ''.flac'']"
    and "\<not> endswith path [''.mp4'', ''.avi'', ''.mov'']"
    and "\<not> endswith path [''.jpg'', ''.png'', ''.gif'']"
  shows "load st now path = Inl (ValueError path)"
    and "''path'' \<notin> fst ` set kwargs \<Longrightarrow> ''size'' \<notin> fst ` set kwargs \<Longrightarrow>
      create_from_path now path sz kwargs = Inl (ValueError path)"
proof -
  show "load st now path = Inl (ValueError path)"
    using assms by (simp only: load_cases if_False)
  show "create_from_path now path sz kwargs = Inl (ValueError path)"
    if "''path'' \<notin> fst ` set kwargs" and "''size'' \<notin> fst ` set kwargs"
    unfolding create_from_path_cases [OF that] using assms by (simp only: if_False)
qed

lemma audio_kwargs_bind:
  assumes "accepts_kwargs [''duration'', ''bitrate'', ''sample_rate'', ''channels''] kw"
  shows "''path'' \<notin> fst ` set kw \<and> ''size'' \<notin> fst ` set kw"
  using accepted_kwargs_bind [OF assms] by simp

lemma video_kwargs_bind:
  assumes "accepts_kwargs [''duration'', ''resolution'', ''frame_rate'', ''codec''] kw"
  shows "''path'' \<notin> fst ` set kw \<and> ''size'' \<notin> fst ` set kw"
  using accepted_kwargs_bind [OF assms] by simp

lemma photo_kwargs_bind:
  assumes "accepts_kwargs [''width'', ''height'', ''color_space'', ''camera_model''] kw"
  shows "''path'' \<notin> fst ` set kw \<and> ''size'' \<notin> fst ` set kw"
  using accepted_kwargs_bind [OF assms] by simp

theorem create_from_path_rejected_keyword_counterexample:
  "suffix ''.mp3'' ''a.mp3'' \<and>
   create_from_path 0 ''a.mp3'' 1 [(''width'', PyInt 1)] = Inl TypeError"
  by (simp add: suffix_def create_from_path_def endswith_def endswith_str_def AudioFile_init_def
      subclass_init_def MediaFile_init_def kw_rest_def positional_params_def base_params_def
      factory_params_def)

text \<open>
  C3, amended. For every path, the \<open>load\<close> of every storage returns an audio object
  when the path ends in \<open>.mp3\<close>, \<open>.wav\<close> or \<open>.flac\<close>, a video object when it ends in
  \<open>.mp4\<close>, \<open>.avi\<close> or \<open>.mov\<close>, and a photo object when it ends in \<open>.jpg\<close>,
  \<open>.png\<close> or \<open>.gif\<close>; \<open>MediaFileFactory.create_from_path\<close> does the same when the
  constructor it selects accepts the extra keyword arguments, in particular when there
  are none. For every other path \<open>load\<close> raises \<open>ValueError\<close>, and so does
  \<open>create_from_path\<close> when no extra keyword is named \<open>path\<close> or \<open>size\<close>; with
  such a keyword \<open>create_from_path\<close> raises \<open>TypeError\<close>, whatever the path.
\<close>

theorem load_and_create_by_extension:
  "(suffix ''.mp3'' path \<or> suffix ''.wav'' path \<or> suffix ''.flac'' path \<longrightarrow>
      (\<exists>m. load st now path = Inr m \<and> cls m = AudioFile) \<and>
      (accepts_kwargs [''duration'', ''bitrate'', ''sample_rate'', ''channels''] kwargs \<longrightarrow>
         (\<exists>m. create_from_path now path sz kwargs = Inr m \<and> cls m = AudioFile))) \<and>
   (suffix ''.mp4'' path \<or> suffix ''.avi'' path \<or> suffix ''.mov'' path \<longrightarrow>
      (\<exists>m. load st now path = Inr m \<and> cls m = VideoFile) \<and>
      (accepts_kwargs [''duration'', ''resolution'', ''frame_rate'', ''codec''] kwargs \<longrightarrow>
         (\<exists>m. create_from_path now path sz kwargs = Inr m \<and> cls m = VideoFile))) \<and>
   (suffix ''.jpg'' path \<or> suffix ''.png'' path \<or> suffix ''.gif'' path \<longrightarrow>
      (\<exists>m. load st now path = Inr m \<and> cls m = PhotoFile) \<and>
      (accepts_kwargs [''width'', ''height'', ''color_space'', ''camera_model''] kwargs \<longrightarrow>
         (\<exists>m. create_from_path now path sz kwargs = Inr m \<and> cls m = PhotoFile))) \<and>
   (\<not> (suffix ''.mp3'' path \<or> suffix ''.wav'' path \<or> suffix ''.flac'' path) \<and>
    \<not> (suffix ''.mp4'' path \<or> suffix ''.avi'' path \<or> suffix ''.mov'' path) \<and>
    \<not> (suffix ''.jpg'' path \<or> suffix ''.png'' path \<or> suffix ''.gif'' path) \<longrightarrow>
      load st now path = Inl (ValueError path) \<and>
      (''path'' \<notin> fst ` set kwargs \<and> ''size'' \<notin> fst ` set kwargs \<longrightarrow>
         create_from_path now path sz kwargs = Inl (ValueError path))) \<and>
   (''path'' \<in> fst ` set kwargs \<or> ''size'' \<in> fst ` set kwargs \<longrightarrow>
      create_from_path now path sz kwargs = Inl TypeError)"
proof (intro conjI impI)
  assume "suffix ''.mp3'' path \<or> suffix ''.wav'' path \<or> suffix ''.flac'' path"
  then have ext: "endswith path [''.mp3'', ''.wav'', ''.flac'']"
    by (simp only: endswith3)
  show "\<exists>m. load st now path = Inr m \<and> cls m = AudioFile"
    unfolding audio_paths(1) [OF ext] by (rule AudioFile_init_accepted) (rule accepts_no_kwargs)
  show "\<exists>m. create_from_path now path sz kwargs = Inr m \<and> cls m = AudioFile"
    if acc: "accepts_kwargs [''duration'', ''bitrate'', ''sample_rate'', ''channels''] kwargs"
  proof -
    have "''path'' \<notin> fst ` set kwargs" and "''size'' \<notin> fst ` set kwargs"
      using audio_kwargs_bind [OF acc] by blast+
    then have "create_from_path now path sz kwargs =
        AudioFile_init now (last (split (CHR ''/'') path)) sz kwargs"
      by (rule audio_paths(2) [OF ext])
    with AudioFile_init_accepted [OF acc] show ?thesis by (simp only:)
  qed
next
  assume "suffix ''.mp4'' path \<or> suffix ''.avi'' path \<or> suffix ''.mov'' path"
  then have ext: "endswith path [''.mp4'', ''.avi'', ''.mov'']"
    by (simp only: endswith3)
  show "\<exists>m. load st now path = Inr m \<and> cls m = VideoFile"
    unfolding video_paths(1) [OF ext] by (rule VideoFile_init_accepted) (rule accepts_no_kwargs)
  show "\<exists>m. create_from_path now path sz kwargs = Inr m \<and> cls m = VideoFile"
    if acc: "accepts_kwargs [''duration'', ''resolution'', ''frame_rate'', ''codec''] kwargs"
  proof -
    have "''path'' \<notin> fst ` set kwargs" and "''size'' \<notin> fst ` set kwargs"
      using video_kwargs_bind [OF acc] by blast+
    then have "create_from_path now path sz kwargs =
        VideoFile_init now (last (split (CHR ''/'') path)) sz kwargs"
      by (rule video_paths(2) [OF ext])
    with VideoFile_init_accepted [OF acc] show ?thesis by (simp only:)
  qed
next
  assume "suffix ''.jpg'' path \<or> suffix ''.png'' path \<or> suffix ''.gif'' path"
  then have ext: "endswith path [''.jpg'', ''.png'', ''.gif'']"
    by (simp only: endswith3)
  show "\<exists>m. load st now path = Inr m \<and> cls m = PhotoFile"
    unfolding photo_paths(1) [OF ext] by (rule PhotoFile_init_accepted) (rule accepts_no_kwargs)
  show "\<exists>m. create_from_path now path sz kwargs = Inr m \<and> cls m = PhotoFile"
    if acc: "accepts_kwargs [''width'', ''height'', ''color_space'', ''camera_model''] kwargs"
  proof -
    have "''path'' \<notin> fst ` set kwargs" and "''size'' \<notin> fst ` set kwargs"
      using photo_kwargs_bind [OF acc] by blast+
    then have "create_from_path now path sz kwargs =
        PhotoFile_init now (last (split (CHR ''/'') path)) sz kwargs"
      by (rule photo_paths(2) [OF ext])
    with PhotoFile_init_accepted [OF acc] show ?thesis by (simp only:)
  qed
next
  assume other: "\<not> (suffix ''.mp3'' path \<or> suffix ''.wav'' path \<or> suffix ''.flac'' path) \<and>
    \<not> (suffix ''.mp4'' path \<or> suffix ''.avi'' path \<or> suffix ''.mov'' path) \<and>
    \<not> (suffix ''.jpg'' path \<or> suffix ''.png'' path \<or> suffix ''.gif'' path)"
  then have no: "\<not> endswith path [''.mp3'', ''.wav'', ''.flac'']"
    "\<not> endswith path [''.mp4'', ''.avi'', ''.mov'']"
    "\<not> endswith path [''.jpg'', ''.png'', ''.gif'']"
    by (simp_all only: endswith3 not_False_eq_True)
  show "load st now path = Inl (ValueError path)"
    using no by (rule other_paths(1))
  show "create_from_path now path sz kwargs = Inl (ValueError path)"
    if "''path'' \<notin> fst ` set kwargs \<and> ''size'' \<notin> fst ` set kwargs"
    using other_paths(2) [OF no] that by blast
next
  assume "''path'' \<in> fst ` set kwargs \<or> ''size'' \<in> fst ` set kwargs"
  then show "create_from_path now path sz kwargs = Inl TypeError"
    by (rule create_from_path_keyword)
qed

text \<open>
  C3 amended, on one path of each group with a keyword the selected constructor
  accepts, on a path with an unsupported extension, and on a keyword named \<open>size\<close>.
\<close>

theorem load_and_create_by_extension_witness:
  "(\<exists>m. load LocalStorage 0 ''/music/another_song.mp3'' = Inr m \<and> cls m = AudioFile) \<and>
   (\<exists>m. create_from_path 0 ''/music/another_song.mp3'' 3000000 [(''owner'', PyStr ''John'')] =
      Inr m \<and> cls m = AudioFile) \<and>
   (\<exists>m. load (CloudStorage ''Dropbox'' [(''api_key'', ''your_api_key'')]) 0 ''movie.avi'' = Inr m \<and>
      cls m = VideoFile) \<and>
   (\<exists>m. create_from_path 0 ''movie.avi'' 40000000 [(''codec'', PyStr ''h264'')] = Inr m \<and>
      cls m = VideoFile) \<and>
   (\<exists>m. load (S3Storage ''media-bucket'' ''us-west-2'' ''access_key'' ''secret_key'') 0
      ''photos/image.gif'' = Inr m \<and> cls m = PhotoFile) \<and>
   (\<exists>m. create_from_path 0 ''photos/image.gif'' 1500000 [(''width'', PyInt 1920)] = Inr m \<and>
      cls m = PhotoFile) \<and>
   load (RemoteStorage ''example.com'' 22 ''user'' ''password'') 0 ''notes.txt'' =
     Inl (ValueError ''notes.txt'') \<and>
   create_from_path 0 ''notes.txt'' 10 [(''width'', PyInt 1920)] = Inl (ValueError ''notes.txt'') \<and>
   create_from_path 0 ''notes.txt'' 10 [(''size'', PyInt 2)] = Inl TypeError"
proof -
  have audio: "suffix ''.mp3'' ''/music/another_song.mp3''"
    and video: "suffix ''.avi'' ''movie.avi''"
    and photo: "suffix ''.gif'' ''photos/image.gif''"
    by (simp_all add: endswith_str_suffix [symmetric] endswith_str_def)
  have other: "\<not> (suffix ''.mp3'' ''notes.txt'' \<or> suffix ''.wav'' ''notes.txt'' \<or>
      suffix ''.flac'' ''notes.txt'') \<and>
    \<not> (suffix ''.mp4'' ''notes.txt'' \<or> suffix ''.avi'' ''notes.txt'' \<or>
      suffix ''.mov'' ''notes.txt'') \<and>
    \<not> (suffix ''.jpg'' ''notes.txt'' \<or> suffix ''.png'' ''notes.txt'' \<or>
      suffix ''.gif'' ''notes.txt'')"
    by (simp add: endswith_str_suffix [symmetric] endswith_str_def)
  have kw_audio: "accepts_kwargs [''duration'', ''bitrate'', ''sample_rate'', ''channels'']
      [(''owner'', PyStr ''John'')]"
    and kw_video: "accepts_kwargs [''duration'', ''resolution'', ''frame_rate'', ''codec'']
      [(''codec'', PyStr ''h264'')]"
    and kw_photo: "accepts_kwargs [''width'', ''height'', ''color_space'', ''camera_model'']
      [(''width'', PyInt 1920)]"
    by (simp_all add: accepts_kwargs_def base_params_def kw_get_def)
  note a = load_and_create_by_extension [where path = "''/music/another_song.mp3''"
      and st = LocalStorage and now = 0 and sz = 3000000
      and kwargs = "[(''owner'', PyStr ''John'')]"]
  note v = load_and_create_by_extension [where path = "''movie.avi''"
      and st = "CloudStorage ''Dropbox'' [(''api_key'', ''your_api_key'')]" and now = 0
      and sz = 40000000 and kwargs = "[(''codec'', PyStr ''h264'')]"]
  note p = load_and_create_by_extension [where path = "''photos/image.gif''"
      and st = "S3Storage ''media-bucket'' ''us-west-2'' ''access_key'' ''secret_key''"
      and now = 0 and sz = 1500000 and kwargs = "[(''width'', PyInt 1920)]"]
  note n = load_and_create_by_extension [where path = "''notes.txt''"
      and st = "RemoteStorage ''example.com'' 22 ''user'' ''password''" and now = 0
      and sz = 10 and kwargs = "[(''width'', PyInt 1920)]"]
  from a audio kw_audio
  have 1: "(\<exists>m. load LocalStorage 0 ''/music/another_song.mp3'' = Inr m \<and> cls m = AudioFile) \<and>
     (\<exists>m. create_from_path 0 ''/music/another_song.mp3'' 3000000 [(''owner'', PyStr ''John'')] =
        Inr m \<and> cls m = AudioFile)"
    by blast
  from v video kw_video
  have 2: "(\<exists>m. load (CloudStorage ''Dropbox'' [(''api_key'', ''your_api_key'')]) 0 ''movie.avi'' =
        Inr m \<and> cls m = VideoFile) \<and>
     (\<exists>m. create_from_path 0 ''movie.avi'' 40000000 [(''codec'', PyStr ''h264'')] = Inr m \<and>
        cls m = VideoFile)"
    by blast
  from p photo kw_photo
  have 3: "(\<exists>m. load (S3Storage ''media-bucket'' ''us-west-2'' ''access_key'' ''secret_key'') 0
        ''photos/image.gif'' = Inr m \<and> cls m = PhotoFile) \<and>
     (\<exists>m. create_from_path 0 ''photos/image.gif'' 1500000 [(''width'', PyInt 1920)] = Inr m \<and>
        cls m = PhotoFile)"
    by blast
  have unbound: "''path'' \<notin> fst ` set [(''width'', PyInt 1920)] \<and>
      ''size'' \<notin> fst ` set [(''width'', PyInt 1920)]"
    and bound: "''path'' \<in> fst ` set [(''size'', PyInt 2)] \<or>
      ''size'' \<in> fst ` set [(''size'', PyInt 2)]"
    by simp_all
  from n other unbound
  have 4: "load (RemoteStorage ''example.com'' 22 ''user'' ''password'') 0 ''notes.txt'' =
       Inl (ValueError ''notes.txt'') \<and>
     create_from_path 0 ''notes.txt'' 10 [(''width'', PyInt 1920)] = Inl (ValueError ''notes.txt'')"
    by blast
  note k = load_and_create_by_extension [where path = "''notes.txt''"
      and st = LocalStorage and now = 0 and sz = 10 and kwargs = "[(''size'', PyInt 2)]"]
  from k bound
  have 5: "create_from_path 0 ''notes.txt'' 10 [(''size'', PyInt 2)] = Inl TypeError"
    by blast
  from 1 2 3 4 5 show ?thesis by blast
qed

subsection \<open>convert\<close>

text \<open>
  C4 says that \<open>convert\<close> returns an object of the same class with the size and the
  metadata of the original, and a name that differs only in the extension. The example
  of \<open>main()\<close> evaluates otherwise: the audio file built there, after
  \<open>update_metadata({"genre": "Rock", "artist": "Unknown"})\<close>, passes \<open>genre\<close> to the
  constructor as a keyword, and \<open>convert("wav")\<close> raises \<open>TypeError\<close>. And a name
  with two dots loses its middle part: \<open>my.song.mp3\<close> converts to \<open>my.wav\<close>.
\<close>

theorem convert_after_update_metadata_raises:
  "AudioFile_init t ''song.mp3'' 5000000
     [(''duration'', PyInt 240), (''bitrate'', PyInt 320), (''sample_rate'', PyInt 44100),
      (''channels'', PyInt 2), (''owner'', PyStr ''John'')] =
     Inr \<lparr>cls = AudioFile, name = ''song.mp3'', size_bytes = 5000000,
          created_at = PyDatetime t, owner = PyStr ''John'',
          metadata = [(''duration'', PyInt 240), (''bitrate'', PyInt 320),
            (''sample_rate'', PyInt 44100), (''channels'', PyInt 2)]\<rparr> \<and>
   convert t' ''wav''
     (update_metadata [(''genre'', PyStr ''Rock''), (''artist'', PyStr ''Unknown'')]
        \<lparr>cls = AudioFile, name = ''song.mp3'', size_bytes = 5000000,
         created_at = PyDatetime t, owner = PyStr ''John'',
         metadata = [(''duration'', PyInt 240), (''bitrate'', PyInt 320),
           (''sample_rate'', PyInt 44100), (''channels'', PyInt 2)]\<rparr>) = Inl TypeError \<and>
   AudioFile_init t ''my.song.mp3'' 1 [] =
     Inr \<lparr>cls = AudioFile, name = ''my.song.mp3'', size_bytes = 1,
          created_at = PyDatetime t, owner = PyNone,
          metadata = [(''duration'', PyNone), (''bitrate'', PyNone),
            (''sample_rate'', PyNone), (''channels'', PyNone)]\<rparr> \<and>
   convert t' ''wav''
     \<lparr>cls = AudioFile, name = ''my.song.mp3'', size_bytes = 1,
      created_at = PyDatetime t, owner = PyNone,
      metadata = [(''duration'', PyNone), (''bitrate'', PyNone),
        (''sample_rate'', PyNone), (''channels'', PyNone)]\<rparr> =
     Inr \<lparr>cls = AudioFile, name = ''my.wav'', size_bytes = 1,
          created_at = PyDatetime t', owner = PyNone,
          metadata = [(''duration'', PyNone), (''bitrate'', PyNone),
            (''sample_rate'', PyNone), (''channels'', PyNone)]\<rparr>"
  by (simp add: convert_def AudioFile_convert_def update_metadata_def AudioFile_init_def
      subclass_init_def MediaFile_init_def kw_rest_def kw_get_def py_or_def dict_update_def
      positional_params_def base_params_def)

end
